theory Spec2Isabelle
  imports Main "HOL-Library.Sublist"
begin

section \<open>Data model\<close>

text \<open>
  The validator of \<^verbatim>\<open>src/app.py\<close> works on pandas data frames. A cell is a number
  (flags and counts are integers), a text, a timezone-aware UTC timestamp in nanoseconds
  since the epoch (what \<^verbatim>\<open>pd.to_datetime(..., utc=True)\<close> produces), the missing number
  \<^verbatim>\<open>NaN\<close> or the missing timestamp \<^verbatim>\<open>NaT\<close>.
  A data frame has its column labels and its rows in file order; a row gives the cell under
  every label (only the cells under the frame's own labels are ever read).
  Every column of a frame has a dtype, which pandas fixes from the whole column when it
  reads the file: \<^verbatim>\<open>int64\<close> for whole numbers, \<^verbatim>\<open>float64\<close> for numbers with a missing
  value or a decimal point among them, \<^verbatim>\<open>datetime64[ns, UTC]\<close> for parsed dates, and
  \<^verbatim>\<open>object\<close> for the rest. The frame carries it under every label.
\<close>

datatype cell = Num int | Text string | Stamp int | NaN | NaT

datatype dtype = Int64 | Float64 | Datetime | Object

type_synonym row = "string \<Rightarrow> cell"

record dataframe =
  columns :: "string list"
  rows :: "row list"
  dtypes :: "string \<Rightarrow> dtype"

text \<open>
  A \<^verbatim>\<open>Series\<close> taken out of a frame by position: its dtype, its labels and its values,
  in order.
\<close>

record series =
  dtype :: dtype
  index :: "string list"
  vals :: "cell list"

text \<open>
  The row of the manifest handed to the rule engine; only \<^verbatim>\<open>row_count\<close>, an integer,
  is read.
\<close>

record manifest_row =
  table_name :: string
  row_count :: int
  time_start :: int
  time_end :: int

text \<open>The attributes set by \<^verbatim>\<open>DumpFileValidator.__init__\<close>.\<close>

record validator =
  window_start :: int
  window_end :: int
  yyyymmdd :: string
  database_names :: "string list"
  environment :: "string list"
  etl_mode :: "(string \<times> string) list"

definition init :: validator where
  "init = \<lparr> window_start = 1733166000000000000,
            window_end = 1733252400000000000,
            yyyymmdd = ''20241204'',
            database_names = [''online'', ''offline''],
            environment = [''PRD'', ''QA'', ''DEV''],
            etl_mode = [(''delta'', ''daily''), (''full'', ''full'')] \<rparr>"

text \<open>The exceptions the modelled functions can raise.\<close>

datatype error = IndexError | TypeError | UnboundLocalError

section \<open>The pandas and Python operations the code uses\<close>

text \<open>\<^verbatim>\<open>len(df)\<close> and \<^verbatim>\<open>len(df.index)\<close>: the number of rows.\<close>

definition len :: "dataframe \<Rightarrow> nat" where
  "len df = length (rows df)"

text \<open>\<^verbatim>\<open>df.empty\<close>: some axis has length 0.\<close>

definition empty :: "dataframe \<Rightarrow> bool" where
  "empty df = (rows df = [] \<or> columns df = [])"

text \<open>
  The dtype of a row taken across columns, as pandas interleaves the column dtypes: the
  dtype all the columns share; \<^verbatim>\<open>float64\<close> when they are \<^verbatim>\<open>int64\<close> and \<^verbatim>\<open>float64\<close>
  mixed; \<^verbatim>\<open>object\<close> otherwise. (A frame read from a file has a column; without columns
  two rows have the same dtype whatever it is.)
\<close>

definition find_common_type :: "dtype list \<Rightarrow> dtype" where
  "find_common_type ds =
     (if ds = [] then Object
      else if list_all (\<lambda>d. d = hd ds) ds then hd ds
      else if list_all (\<lambda>d. d = Int64 \<or> d = Float64) ds then Float64
      else Object)"

text \<open>
  \<^verbatim>\<open>df.iloc[i]\<close>: the row at a position, negative positions counting from the end;
  out of range it raises \<^verbatim>\<open>IndexError\<close>. The labels of the row are the columns of the
  frame and its dtype is the common dtype of the columns.
\<close>

definition iloc :: "dataframe \<Rightarrow> int \<Rightarrow> error + series" where
  "iloc df i =
     (let n = int (len df); j = (if i < 0 then n + i else i)
      in if 0 \<le> j \<and> j < n
         then Inr \<lparr> dtype = find_common_type (map (dtypes df) (columns df)),
                    index = columns df,
                    vals = map (rows df ! nat j) (columns df) \<rparr>
         else Inl IndexError)"

text \<open>
  \<^verbatim>\<open>a.equals(b)\<close> on two row series: the same labels, the same dtype, and the same
  values position by position, a missing value being equal to the same missing value at
  the same position. Two rows with the same values and different dtypes are not equal.
\<close>

definition equals :: "series \<Rightarrow> series \<Rightarrow> bool" where
  "equals a b = (index a = index b \<and> dtype a = dtype b \<and> vals a = vals b)"

text \<open>
  \<^verbatim>\<open>df[c]\<close>: the cells of one column. Every use in the source is guarded by
  \<^verbatim>\<open>c in df.columns\<close>, so the \<^verbatim>\<open>KeyError\<close> of an absent label cannot occur.
\<close>

definition getitem :: "dataframe \<Rightarrow> string \<Rightarrow> cell list" where
  "getitem df c = map (\<lambda>r. r c) (rows df)"

text \<open>
  A column is a timestamp column when each of its cells is a timestamp or \<^verbatim>\<open>NaT\<close>.
  Comparing any other column with a \<^verbatim>\<open>Timestamp\<close> by \<^verbatim>\<open>>=\<close> or \<^verbatim>\<open><\<close> raises
  \<^verbatim>\<open>TypeError\<close>; on a timestamp column the comparison is cell by cell, false at \<^verbatim>\<open>NaT\<close>.
\<close>

fun is_stamp :: "cell \<Rightarrow> bool" where
  "is_stamp (Stamp s) = True"
| "is_stamp NaT = True"
| "is_stamp c = False"

fun cell_ge :: "int \<Rightarrow> cell \<Rightarrow> bool" where
  "cell_ge t (Stamp s) = (t \<le> s)"
| "cell_ge t c = False"

fun cell_lt :: "int \<Rightarrow> cell \<Rightarrow> bool" where
  "cell_lt t (Stamp s) = (s < t)"
| "cell_lt t c = False"

definition series_ge :: "cell list \<Rightarrow> int \<Rightarrow> error + bool list" where
  "series_ge cs t = (if list_all is_stamp cs then Inr (map (cell_ge t) cs) else Inl TypeError)"

definition series_lt :: "cell list \<Rightarrow> int \<Rightarrow> error + bool list" where
  "series_lt cs t = (if list_all is_stamp cs then Inr (map (cell_lt t) cs) else Inl TypeError)"

text \<open>
  \<^verbatim>\<open>column != k\<close> for an integer \<open>k\<close> never raises: a cell differs from \<open>k\<close> unless it
  is the number \<open>k\<close>.
\<close>

definition series_ne :: "cell list \<Rightarrow> int \<Rightarrow> bool list" where
  "series_ne cs k = map (\<lambda>c. c \<noteq> Num k) cs"

text \<open>The boolean masks: \<^verbatim>\<open>&\<close>, \<^verbatim>\<open>|\<close>, \<^verbatim>\<open>~\<close>, and selection of rows \<^verbatim>\<open>df[mask]\<close>.\<close>

definition mask_and :: "bool list \<Rightarrow> bool list \<Rightarrow> bool list" where
  "mask_and a b = map (\<lambda>(x, y). x \<and> y) (zip a b)"

definition mask_or :: "bool list \<Rightarrow> bool list \<Rightarrow> bool list" where
  "mask_or a b = map (\<lambda>(x, y). x \<or> y) (zip a b)"

definition mask_not :: "bool list \<Rightarrow> bool list" where
  "mask_not a = map Not a"

definition select :: "dataframe \<Rightarrow> bool list \<Rightarrow> dataframe" where
  "select df msk = df \<lparr> rows := map fst (filter snd (zip (rows df) msk)) \<rparr>"

text \<open>\<^verbatim>\<open>str\<close> of an integer, as an f-string formats it: decimal digits, a sign when negative.\<close>

fun str_nat :: "nat \<Rightarrow> string" where
  "str_nat n = (if n < 10 then [''0123456789'' ! n]
                else str_nat (n div 10) @ [''0123456789'' ! (n mod 10)])"

declare str_nat.simps [simp del]

definition str :: "int \<Rightarrow> string" where
  "str i = (if i < 0 then ''-'' @ str_nat (nat (- i)) else str_nat (nat i))"

section \<open>The boundary comparator\<close>

text \<open>
  \<^verbatim>\<open>compare_validation_files\<close>, lines 90 to 137. The local variable
  \<^verbatim>\<open>single_row_match\<close> is bound only inside the one-row branch, both arms of which
  return; it is carried as an option, \<open>None\<close> while unbound, and reading it unbound
  (line 128) raises \<^verbatim>\<open>UnboundLocalError\<close>. The \<^verbatim>\<open>print\<close> calls of lines 113 to 133
  write to the console only and are left out.
\<close>

definition two_row_message :: "nat \<Rightarrow> string" where
  "two_row_message n =
     ''Validation file should contain exactly 2 data rows (first and last), found ''
       @ str (int n) @ '' rows''"

definition compare_validation_files :: "dataframe \<Rightarrow> dataframe \<Rightarrow> error + (bool \<times> string)" where
  "compare_validation_files raw_df validation_df =
     (let single_row_match = (None :: bool option) in
      if len validation_df = 0 then Inr (True, ''Validation file is empty, no changes made'')
      else if len raw_df = 1 \<and> len validation_df = 1 then
        (case iloc raw_df 0 of Inl e \<Rightarrow> Inl e | Inr a \<Rightarrow>
         case iloc validation_df 0 of Inl e \<Rightarrow> Inl e | Inr b \<Rightarrow>
           let single_row_match = Some (equals a b) in
           if single_row_match = Some True then Inr (True, ''Validation check passed'')
           else Inr (False, ''Validation and raw row mismatch''))
      else if len validation_df \<noteq> 2 then Inr (False, two_row_message (len validation_df))
      else
        (case iloc raw_df 0 of Inl e \<Rightarrow> Inl e | Inr r0 \<Rightarrow>
         case iloc validation_df 1 of Inl e \<Rightarrow> Inl e | Inr v1 \<Rightarrow>
         case iloc raw_df (- 1) of Inl e \<Rightarrow> Inl e | Inr rn \<Rightarrow>
         case iloc validation_df 0 of Inl e \<Rightarrow> Inl e | Inr v0 \<Rightarrow>
           let first_row_match = equals r0 v1;
               last_row_match = equals rn v0
           in if \<not> (first_row_match \<or> last_row_match) then
                (case single_row_match of
                   None \<Rightarrow> Inl UnboundLocalError
                 | Some m \<Rightarrow>
                     Inr (False, ''First and/or last rows don't match between raw and validation files''))
              else Inr (True, ''Validation file check passed'')))"

section \<open>The rule engine\<close>

text \<open>\<^verbatim>\<open>check_id_column\<close>, lines 19 to 22.\<close>

definition id_columns :: "string list" where
  "id_columns = [''ID'', ''Id'', ''DataID'', ''ProductOptionDataID'']"

definition check_id_column :: "dataframe \<Rightarrow> bool \<times> string option" where
  "check_id_column df =
     (let found_cols = filter (\<lambda>col. col \<in> set (columns df)) id_columns
      in (length found_cols > 0, if found_cols \<noteq> [] then Some (found_cols ! 0) else None))"

text \<open>The messages the rules append, as the f-strings of the source build them.\<close>

definition row_count_message :: "int \<Rightarrow> nat \<Rightarrow> string" where
  "row_count_message expected got =
     ''Row count mismatch: expected '' @ str expected @ '', got '' @ str (int got)"

definition daily_created_message :: "nat \<Rightarrow> string" where
  "daily_created_message n = ''Found '' @ str (int n) @ '' invalid IsCreated values''"

definition daily_modified_message :: "nat \<Rightarrow> string" where
  "daily_modified_message n = ''Found '' @ str (int n) @ '' invalid IsModified values''"

definition window_message :: "nat \<Rightarrow> string" where
  "window_message n = ''Found '' @ str (int n) @ '' records outside time window''"

definition full_created_message :: "nat \<Rightarrow> string" where
  "full_created_message n = ''Found '' @ str (int n) @ '' rows with IsCreated != 1''"

definition full_modified_message :: "nat \<Rightarrow> string" where
  "full_modified_message n = ''Found '' @ str (int n) @ '' rows with IsModified != 0''"

text \<open>
  Rules 4a and 4b, lines 28 to 34 and 68 to 74, are the same in both modes: each takes
  the list \<^verbatim>\<open>validation_results\<close> and returns it, extended or not.
\<close>

definition check_row_count :: "dataframe \<Rightarrow> manifest_row \<Rightarrow> string list \<Rightarrow> string list" where
  "check_row_count raw_df metadata_row validation_results =
     (if int (len raw_df) \<noteq> row_count metadata_row
      then validation_results @ [row_count_message (row_count metadata_row) (len raw_df)]
      else validation_results)"

definition check_id :: "dataframe \<Rightarrow> string list \<Rightarrow> string list" where
  "check_id raw_df validation_results =
     (let (has_id, id_col) = check_id_column raw_df
      in if \<not> has_id then validation_results @ [''No valid ID column found'']
         else validation_results)"

text \<open>Rule 4c of the daily mode, lines 37 to 41.\<close>

definition daily_is_created :: "validator \<Rightarrow> dataframe \<Rightarrow> string list \<Rightarrow> error + string list" where
  "daily_is_created self raw_df validation_results =
     (if ''IsCreated'' \<in> set (columns raw_df) \<and> ''DateCreated'' \<in> set (columns raw_df) then
        (case series_ge (getitem raw_df ''DateCreated'') (window_start self) of
           Inl e \<Rightarrow> Inl e
         | Inr created_mask \<Rightarrow>
             let invalid_created =
                   select raw_df (mask_and created_mask (series_ne (getitem raw_df ''IsCreated'') 1))
             in if \<not> empty invalid_created
                then Inr (validation_results @ [daily_created_message (len invalid_created)])
                else Inr validation_results)
      else Inr validation_results)"

text \<open>Rule 4d of the daily mode, lines 44 to 48.\<close>

definition daily_is_modified :: "validator \<Rightarrow> dataframe \<Rightarrow> string list \<Rightarrow> error + string list" where
  "daily_is_modified self raw_df validation_results =
     (if ''IsModified'' \<in> set (columns raw_df) \<and> ''DateModified'' \<in> set (columns raw_df) then
        (case series_ge (getitem raw_df ''DateModified'') (window_start self) of
           Inl e \<Rightarrow> Inl e
         | Inr modified_mask \<Rightarrow>
             let invalid_modified =
                   select raw_df (mask_and modified_mask (series_ne (getitem raw_df ''IsModified'') 1))
             in if \<not> empty invalid_modified
                then Inr (validation_results @ [daily_modified_message (len invalid_modified)])
                else Inr validation_results)
      else Inr validation_results)"

text \<open>Rule 4e of the daily mode, lines 51 to 60; the four comparisons run left to right.\<close>

definition daily_date_criteria :: "validator \<Rightarrow> dataframe \<Rightarrow> string list \<Rightarrow> error + string list" where
  "daily_date_criteria self raw_df validation_results =
     (if ''DateCreated'' \<in> set (columns raw_df) \<and> ''DateModified'' \<in> set (columns raw_df) then
        (case series_ge (getitem raw_df ''DateCreated'') (window_start self) of
           Inl e \<Rightarrow> Inl e
         | Inr c_ge \<Rightarrow>
        (case series_lt (getitem raw_df ''DateCreated'') (window_end self) of
           Inl e \<Rightarrow> Inl e
         | Inr c_lt \<Rightarrow>
        (case series_ge (getitem raw_df ''DateModified'') (window_start self) of
           Inl e \<Rightarrow> Inl e
         | Inr m_ge \<Rightarrow>
        (case series_lt (getitem raw_df ''DateModified'') (window_end self) of
           Inl e \<Rightarrow> Inl e
         | Inr m_lt \<Rightarrow>
             let date_criteria = mask_or (mask_and c_ge c_lt) (mask_and m_ge m_lt);
                 invalid_dates = select raw_df (mask_not date_criteria)
             in if \<not> empty invalid_dates
                then Inr (validation_results @ [window_message (len invalid_dates)])
                else Inr validation_results))))
      else Inr validation_results)"

text \<open>\<^verbatim>\<open>validate_daily_file\<close>, lines 24 to 62.\<close>

definition validate_daily_file ::
    "validator \<Rightarrow> dataframe \<Rightarrow> manifest_row \<Rightarrow> error + (bool \<times> string list)" where
  "validate_daily_file self raw_df metadata_row =
     (let validation_results = [];
          validation_results = check_row_count raw_df metadata_row validation_results;
          validation_results = check_id raw_df validation_results
      in case daily_is_created self raw_df validation_results of
           Inl e \<Rightarrow> Inl e
         | Inr validation_results \<Rightarrow>
        (case daily_is_modified self raw_df validation_results of
           Inl e \<Rightarrow> Inl e
         | Inr validation_results \<Rightarrow>
        (case daily_date_criteria self raw_df validation_results of
           Inl e \<Rightarrow> Inl e
         | Inr validation_results \<Rightarrow>
             Inr (length validation_results = 0, validation_results))))"

text \<open>Rules 4c and 4d of the full mode, lines 77 to 86; neither can raise.\<close>

definition full_is_created :: "dataframe \<Rightarrow> string list \<Rightarrow> string list" where
  "full_is_created raw_df validation_results =
     (if ''IsCreated'' \<in> set (columns raw_df) then
        (let invalid_created = select raw_df (series_ne (getitem raw_df ''IsCreated'') 1)
         in if \<not> empty invalid_created
            then validation_results @ [full_created_message (len invalid_created)]
            else validation_results)
      else validation_results)"

definition full_is_modified :: "dataframe \<Rightarrow> string list \<Rightarrow> string list" where
  "full_is_modified raw_df validation_results =
     (if ''IsModified'' \<in> set (columns raw_df) then
        (let invalid_modified = select raw_df (series_ne (getitem raw_df ''IsModified'') 0)
         in if \<not> empty invalid_modified
            then validation_results @ [full_modified_message (len invalid_modified)]
            else validation_results)
      else validation_results)"

text \<open>\<^verbatim>\<open>validate_full_file\<close>, lines 64 to 88.\<close>

definition validate_full_file ::
    "validator \<Rightarrow> dataframe \<Rightarrow> manifest_row \<Rightarrow> error + (bool \<times> string list)" where
  "validate_full_file self raw_df metadata_row =
     (let validation_results = [];
          validation_results = check_row_count raw_df metadata_row validation_results;
          validation_results = check_id raw_df validation_results;
          validation_results = full_is_created raw_df validation_results;
          validation_results = full_is_modified raw_df validation_results
      in Inr (length validation_results = 0, validation_results))"

text \<open>
  The dispatch on the mode, lines 177 to 180 of \<^verbatim>\<open>process_files\<close>: the daily rules for
  \<^verbatim>\<open>'daily'\<close>, the full rules otherwise. This is the \<^verbatim>\<open>evaluate\<close> of the specification.
\<close>

definition evaluate ::
    "validator \<Rightarrow> string \<Rightarrow> dataframe \<Rightarrow> manifest_row \<Rightarrow> error + (bool \<times> string list)" where
  "evaluate self mode raw_df row =
     (if mode = ''daily'' then validate_daily_file self raw_df row
      else validate_full_file self raw_df row)"

section \<open>Vocabulary of the properties\<close>

text \<open>
  The loader (lines 169 to 174) passes each date column that is present through
  \<^verbatim>\<open>pd.to_datetime(..., utc=True)\<close>; a frame it produced has timestamp cells only in
  those columns. This is the well-typed input of the daily rules.
\<close>

definition has :: "dataframe \<Rightarrow> string \<Rightarrow> bool" where
  "has df c = (c \<in> set (columns df))"

definition stamps :: "dataframe \<Rightarrow> string \<Rightarrow> bool" where
  "stamps df c = list_all is_stamp (getitem df c)"

definition dates_parsed :: "dataframe \<Rightarrow> bool" where
  "dates_parsed df =
     list_all (\<lambda>c. has df c \<longrightarrow> stamps df c) [''DateCreated'', ''DateModified'']"

text \<open>
  The records a rule counts, in the words of the specification. A cell lies in the window
  when it is a timestamp \<open>s\<close> with \<open>window.start \<le> s < window.end\<close>.
\<close>

definition invalid_created :: "validator \<Rightarrow> row \<Rightarrow> bool" where
  "invalid_created self r =
     (cell_ge (window_start self) (r ''DateCreated'') \<and> r ''IsCreated'' \<noteq> Num 1)"

definition invalid_modified :: "validator \<Rightarrow> row \<Rightarrow> bool" where
  "invalid_modified self r =
     (cell_ge (window_start self) (r ''DateModified'') \<and> r ''IsModified'' \<noteq> Num 1)"

definition in_window :: "validator \<Rightarrow> cell \<Rightarrow> bool" where
  "in_window self c =
     (case c of Stamp s \<Rightarrow> window_start self \<le> s \<and> s < window_end self | _ \<Rightarrow> False)"

definition outside_window :: "validator \<Rightarrow> row \<Rightarrow> bool" where
  "outside_window self r =
     (\<not> (in_window self (r ''DateCreated'') \<or> in_window self (r ''DateModified'')))"

definition violations :: "(row \<Rightarrow> bool) \<Rightarrow> dataframe \<Rightarrow> nat" where
  "violations P df = length (filter P (rows df))"

text \<open>
  What one rule contributes to the messages: nothing when it does not apply or nothing
  violates it, one message carrying the count otherwise.
\<close>

definition report :: "bool \<Rightarrow> (nat \<Rightarrow> string) \<Rightarrow> nat \<Rightarrow> string list" where
  "report applicable msg n = (if applicable \<and> 0 < n then [msg n] else [])"

definition row_part :: "dataframe \<Rightarrow> manifest_row \<Rightarrow> string list" where
  "row_part df row =
     (if int (len df) \<noteq> row_count row then [row_count_message (row_count row) (len df)] else [])"

definition id_part :: "dataframe \<Rightarrow> string list" where
  "id_part df = (if list_ex (has df) id_columns then [] else [''No valid ID column found''])"

definition daily_messages :: "validator \<Rightarrow> dataframe \<Rightarrow> manifest_row \<Rightarrow> string list" where
  "daily_messages self df row =
     row_part df row @ id_part df
     @ report (has df ''IsCreated'' \<and> has df ''DateCreated'')
         daily_created_message (violations (invalid_created self) df)
     @ report (has df ''IsModified'' \<and> has df ''DateModified'')
         daily_modified_message (violations (invalid_modified self) df)
     @ report (has df ''DateCreated'' \<and> has df ''DateModified'')
         window_message (violations (outside_window self) df)"

definition full_messages :: "dataframe \<Rightarrow> manifest_row \<Rightarrow> string list" where
  "full_messages df row =
     row_part df row @ id_part df
     @ report (has df ''IsCreated'') full_created_message
         (violations (\<lambda>r. r ''IsCreated'' \<noteq> Num 1) df)
     @ report (has df ''IsModified'') full_modified_message
         (violations (\<lambda>r. r ''IsModified'' \<noteq> Num 0) df)"

text \<open>The inputs on which a date comparison of the daily rules raises.\<close>

definition daily_raises :: "dataframe \<Rightarrow> bool" where
  "daily_raises df =
     ((has df ''IsCreated'' \<and> has df ''DateCreated'' \<and> \<not> stamps df ''DateCreated'') \<or>
      (has df ''IsModified'' \<and> has df ''DateModified'' \<and> \<not> stamps df ''DateModified'') \<or>
      (has df ''DateCreated'' \<and> has df ''DateModified'' \<and>
         \<not> (stamps df ''DateCreated'' \<and> stamps df ''DateModified'')))"

text \<open>
  A family of messages \<open>msg\<close>, indexed by the count it carries, is reported once with the
  count \<open>n\<close>, or not at all.
\<close>

definition reports_once :: "(nat \<Rightarrow> string) \<Rightarrow> nat \<Rightarrow> string list \<Rightarrow> bool" where
  "reports_once msg n msgs =
     (\<exists>pre post. msgs = pre @ [msg n] @ post \<and> (\<forall>k. msg k \<notin> set pre \<and> msg k \<notin> set post))"

definition reports_none :: "(nat \<Rightarrow> string) \<Rightarrow> string list \<Rightarrow> bool" where
  "reports_none msg msgs = (\<forall>k. msg k \<notin> set msgs)"

text \<open>The messages the rules of a mode can append, in the order the rules run.\<close>

definition rule_order :: "validator \<Rightarrow> string \<Rightarrow> dataframe \<Rightarrow> manifest_row \<Rightarrow> string list" where
  "rule_order self mode df row =
     (if mode = ''daily'' then
        [row_count_message (row_count row) (len df), ''No valid ID column found'',
         daily_created_message (violations (invalid_created self) df),
         daily_modified_message (violations (invalid_modified self) df),
         window_message (violations (outside_window self) df)]
      else
        [row_count_message (row_count row) (len df), ''No valid ID column found'',
         full_created_message (violations (\<lambda>r. r ''IsCreated'' \<noteq> Num 1) df),
         full_modified_message (violations (\<lambda>r. r ''IsModified'' \<noteq> Num 0) df)])"

section \<open>Sample inputs\<close>

text \<open>
  A table of three records under all the columns the rules read. With the window of
  \<open>init\<close>: the first record is created at the start of the window and is in order; the
  second is created at the start of the window with \<^verbatim>\<open>IsCreated = 0\<close>; the third lies
  outside the window and is modified after its start with \<^verbatim>\<open>IsModified = 0\<close>.
\<close>

definition record1 :: row where
  "record1 = (\<lambda>_. NaN)(''Id'' := Num 1, ''DataID'' := Num 10, ''IsCreated'' := Num 1,
     ''IsModified'' := Num 0, ''DateCreated'' := Stamp 1733166000000000000,
     ''DateModified'' := NaT)"

definition record2 :: row where
  "record2 = (\<lambda>_. NaN)(''Id'' := Num 2, ''DataID'' := Num 20, ''IsCreated'' := Num 0,
     ''IsModified'' := Num 1, ''DateCreated'' := Stamp 1733166000000000000,
     ''DateModified'' := Stamp 1733252400000000000)"

definition record3 :: row where
  "record3 = (\<lambda>_. NaN)(''Id'' := Num 3, ''DataID'' := Num 30, ''IsCreated'' := Num 1,
     ''IsModified'' := Num 0, ''DateCreated'' := Stamp 1733165999999999999,
     ''DateModified'' := Stamp 1733252400000000000)"

definition sample_columns :: "string list" where
  "sample_columns =
     [''Id'', ''DataID'', ''IsCreated'', ''IsModified'', ''DateCreated'', ''DateModified'']"

definition sample_dtypes :: "string \<Rightarrow> dtype" where
  "sample_dtypes = (\<lambda>_. Int64)(''DateCreated'' := Datetime, ''DateModified'' := Datetime)"

definition sample_df :: dataframe where
  "sample_df = \<lparr> columns = sample_columns, rows = [record1, record2, record3],
                  dtypes = sample_dtypes \<rparr>"

definition orders :: manifest_row where
  "orders = \<lparr> table_name = ''orders'', row_count = 2,
               time_start = 1733166000000000000, time_end = 1733252400000000000 \<rparr>"

text \<open>Validation files for \<open>sample_df\<close>: with the rows wanted, in either order, and others.\<close>

definition validation_last_first :: dataframe where
  "validation_last_first =
     \<lparr> columns = sample_columns, rows = [record3, record1], dtypes = sample_dtypes \<rparr>"

definition validation_first_last :: dataframe where
  "validation_first_last =
     \<lparr> columns = sample_columns, rows = [record1, record3], dtypes = sample_dtypes \<rparr>"

definition validation_unrelated :: dataframe where
  "validation_unrelated =
     \<lparr> columns = sample_columns, rows = [record2, record2], dtypes = sample_dtypes \<rparr>"

definition validation_last_only :: dataframe where
  "validation_last_only =
     \<lparr> columns = sample_columns, rows = [record3, record2], dtypes = sample_dtypes \<rparr>"

definition validation_single :: dataframe where
  "validation_single =
     \<lparr> columns = sample_columns, rows = [record1], dtypes = sample_dtypes \<rparr>"

text \<open>A table whose identifier columns are \<^verbatim>\<open>DataID\<close> and \<^verbatim>\<open>Id\<close>, in this order.\<close>

definition id_sample :: dataframe where
  "id_sample = \<lparr> columns = [''DataID'', ''Id''], rows = [record1], dtypes = sample_dtypes \<rparr>"

text \<open>
  A table of scores whose middle record has no score, which makes the column
  \<^verbatim>\<open>float64\<close>, and a validation file with its last and first records, where the column of
  scores is \<^verbatim>\<open>int64\<close>.
\<close>

definition scores_raw :: dataframe where
  "scores_raw =
     \<lparr> columns = [''Id'', ''Score''],
       rows = [(\<lambda>_. NaN)(''Id'' := Num 1, ''Score'' := Num 5),
               (\<lambda>_. NaN)(''Id'' := Num 2),
               (\<lambda>_. NaN)(''Id'' := Num 3, ''Score'' := Num 7)],
       dtypes = (\<lambda>_. Int64)(''Score'' := Float64) \<rparr>"

definition scores_validation :: dataframe where
  "scores_validation =
     \<lparr> columns = [''Id'', ''Score''],
       rows = [(\<lambda>_. NaN)(''Id'' := Num 3, ''Score'' := Num 7),
               (\<lambda>_. NaN)(''Id'' := Num 1, ''Score'' := Num 5)],
       dtypes = (\<lambda>_. Int64) \<rparr>"

section \<open>Properties of the boundary comparator\<close>

lemma iloc_two_rows:
  "len df = 2 \<Longrightarrow> \<exists>a b. iloc df 0 = Inr a \<and> iloc df 1 = Inr b"
  by (simp add: iloc_def)

lemma iloc_empty: "len df = 0 \<Longrightarrow> iloc df i = Inl IndexError"
  by (simp add: iloc_def)

lemma iloc_nonempty:
  "len df \<noteq> 0 \<Longrightarrow> \<exists>a b. iloc df 0 = Inr a \<and> iloc df (- 1) = Inr b"
  by (simp add: iloc_def Let_def)

text \<open>
  The branch of lines 108 to 137, reached with two validation rows and a raw file that has
  rows: valid when a pairing holds, and otherwise the read of the unbound
  \<^verbatim>\<open>single_row_match\<close> on line 128, before the \<^verbatim>\<open>return\<close> of line 135.
\<close>

lemma compare_two_rows:
  assumes "len validation_df = 2"
      and "iloc raw_df 0 = Inr r0" and "iloc raw_df (- 1) = Inr rn"
      and "iloc validation_df 0 = Inr v0" and "iloc validation_df 1 = Inr v1"
  shows "compare_validation_files raw_df validation_df =
           (if equals r0 v1 \<or> equals rn v0 then Inr (True, ''Validation file check passed'')
            else Inl UnboundLocalError)"
  using assms by (simp add: compare_validation_files_def)

text \<open>
  Rows with the same values and different dtypes do not pair: the raw rows of the table
  of scores are \<^verbatim>\<open>float64\<close>, the validation rows \<^verbatim>\<open>int64\<close>, and the comparator ends
  on line 128 although the validation file holds the last and the first raw record.
\<close>

lemma compare_dtype_mismatch_raises:
  "compare_validation_files scores_raw scores_validation = Inl UnboundLocalError"
  by code_simp

text \<open>A raw file without rows and two validation rows: line 109 raises.\<close>

lemma compare_empty_raw_raises:
  "len raw_df = 0 \<Longrightarrow> len validation_df = 2 \<Longrightarrow>
     compare_validation_files raw_df validation_df = Inl IndexError"
  by (simp add: compare_validation_files_def iloc_empty)

text \<open>No input at all makes the comparator return the message of line 135.\<close>

lemma compare_mismatch_message_unreachable:
  "compare_validation_files raw_df validation_df \<noteq>
     Inr (ok, ''First and/or last rows don't match between raw and validation files'')"
  by (simp add: compare_validation_files_def two_row_message_def Let_def
      split: sum.splits option.splits)

text \<open>
  C1. The claim: with a validation file of exactly two rows and neither pairing holding,
  the comparator returns invalid with the message of line 135 (first and/or last rows do
  not match) and never raises. The code raises there: on the sample table and
  two validation rows that match neither its first nor its last row, the result is the
  \<^verbatim>\<open>UnboundLocalError\<close> of line 128.
\<close>

theorem compare_no_pairing_raises:
  "compare_validation_files sample_df validation_unrelated = Inl UnboundLocalError"
  by code_simp

text \<open>
  C2. The claim: validation rows in the order last, first are accepted, and validation rows
  in the straight order first, last (the two being different) make the comparator return
  invalid. The first half holds on the sample table; on the second the code does not
  return: it raises the \<^verbatim>\<open>UnboundLocalError\<close> of line 128.
\<close>

theorem compare_straight_order_raises:
  "compare_validation_files sample_df validation_last_first =
     Inr (True, ''Validation file check passed'')
   \<and> compare_validation_files sample_df validation_first_last = Inl UnboundLocalError"
  by code_simp

text \<open>
  C9. With a validation file of two rows, the comparator returns valid as soon as one
  pairing holds: the last raw row equal to the first validation row, whatever the second
  validation row is, or the first raw row equal to the second validation row, whatever the
  first validation row is. Equality of rows is that of \<^verbatim>\<open>equals\<close>, lines 109 and 110:
  labels, dtype and values. (A raw file without rows has no first or last row, so no
  pairing holds for it.)
\<close>

theorem compare_either_pairing_valid:
  assumes "len validation_df = 2"
      and "(\<exists>rn v0. iloc raw_df (- 1) = Inr rn \<and> iloc validation_df 0 = Inr v0 \<and> equals rn v0) \<or>
           (\<exists>r0 v1. iloc raw_df 0 = Inr r0 \<and> iloc validation_df 1 = Inr v1 \<and> equals r0 v1)"
  shows "compare_validation_files raw_df validation_df =
           Inr (True, ''Validation file check passed'')"
proof (cases "len raw_df = 0")
  case True
  with assms(2) show ?thesis by (simp add: iloc_empty)
next
  case False
  then obtain r0 rn where r: "iloc raw_df 0 = Inr r0" "iloc raw_df (- 1) = Inr rn"
    using iloc_nonempty by blast
  from assms(1) obtain v0 v1
    where v: "iloc validation_df 0 = Inr v0" "iloc validation_df 1 = Inr v1"
    using iloc_two_rows by blast
  from assms(2) r v have "equals r0 v1 \<or> equals rn v0" by auto
  with compare_two_rows [OF assms(1) r v] show ?thesis by simp
qed

theorem compare_either_pairing_valid_witness:
  "len validation_last_only = 2 \<and>
   (\<exists>rn v0. iloc sample_df (- 1) = Inr rn \<and> iloc validation_last_only 0 = Inr v0 \<and>
      equals rn v0) \<and>
   \<not> (\<exists>r0 v1. iloc sample_df 0 = Inr r0 \<and> iloc validation_last_only 1 = Inr v1 \<and>
      equals r0 v1) \<and>
   compare_validation_files sample_df validation_last_only =
     Inr (True, ''Validation file check passed'')"
proof -
  have l: "len validation_last_only = 2" by code_simp
  obtain rn v0 r0 v1
    where i: "iloc sample_df (- 1) = Inr rn" "iloc validation_last_only 0 = Inr v0"
             "iloc sample_df 0 = Inr r0" "iloc validation_last_only 1 = Inr v1"
    by (simp add: iloc_def len_def sample_df_def validation_last_only_def)
  have "case (iloc sample_df (- 1), iloc validation_last_only 0) of
          (Inr a, Inr b) \<Rightarrow> equals a b | _ \<Rightarrow> False"
    by code_simp
  with i have p: "equals rn v0" by simp
  have "case (iloc sample_df 0, iloc validation_last_only 1) of
          (Inr a, Inr b) \<Rightarrow> \<not> equals a b | _ \<Rightarrow> False"
    by code_simp
  with i have q: "\<not> equals r0 v1" by simp
  from i p have h: "\<exists>rn v0. iloc sample_df (- 1) = Inr rn \<and> iloc validation_last_only 0 = Inr v0 \<and>
      equals rn v0"
    by blast
  from i q have n: "\<not> (\<exists>r0 v1. iloc sample_df 0 = Inr r0 \<and> iloc validation_last_only 1 = Inr v1 \<and>
      equals r0 v1)"
    by auto
  from compare_either_pairing_valid [OF l disjI1 [OF h]] l h n show ?thesis by blast
qed

text \<open>
  C10. With one validation row and more than one raw row, no single-row comparison is
  made and the comparator returns invalid with the message that names the count 1; and the
  two results of the single-row branch are returned only when both files have exactly one
  row.
\<close>

theorem compare_one_validation_row:
  "(len validation_df = 1 \<and> 1 < len raw_df \<longrightarrow>
      compare_validation_files raw_df validation_df =
        Inr (False,
          ''Validation file should contain exactly 2 data rows (first and last), found 1 rows''))
   \<and> (compare_validation_files raw_df validation_df = Inr (ok, ''Validation check passed'') \<or>
      compare_validation_files raw_df validation_df = Inr (ok, ''Validation and raw row mismatch'')
        \<longrightarrow> len raw_df = 1 \<and> len validation_df = 1)"
  by (auto simp: compare_validation_files_def two_row_message_def Let_def str_def str_nat.simps
      split: sum.splits option.splits if_splits)

theorem compare_one_validation_row_witness:
  "len validation_single = 1 \<and> 1 < len sample_df \<and>
   compare_validation_files sample_df validation_single =
     Inr (False,
       ''Validation file should contain exactly 2 data rows (first and last), found 1 rows'')"
proof -
  have h: "len validation_single = 1 \<and> 1 < len sample_df" by code_simp
  from compare_one_validation_row [of validation_single sample_df] h show ?thesis by simp
qed

section \<open>Properties of the rule engine\<close>

subsection \<open>Masks and selections as filters\<close>

lemma filter_by_mask: "map fst (filter snd (zip xs (map P xs))) = filter P xs"
  by (induction xs) auto

lemma select_rows: "rows (select df (map P (rows df))) = filter P (rows df)"
  by (simp add: select_def filter_by_mask)

lemma select_columns: "columns (select df m) = columns df"
  by (simp add: select_def)

lemma mask_and_map: "mask_and (map P xs) (map Q xs) = map (\<lambda>x. P x \<and> Q x) xs"
  by (induction xs) (auto simp: mask_and_def)

lemma mask_or_map: "mask_or (map P xs) (map Q xs) = map (\<lambda>x. P x \<or> Q x) xs"
  by (induction xs) (auto simp: mask_or_def)

lemma mask_not_map: "mask_not (map P xs) = map (\<lambda>x. \<not> P x) xs"
  by (simp add: mask_not_def)

lemma series_ge_getitem:
  "series_ge (getitem df c) t =
     (if stamps df c then Inr (map (\<lambda>r. cell_ge t (r c)) (rows df)) else Inl TypeError)"
  by (simp add: series_ge_def stamps_def getitem_def o_def)

lemma series_lt_getitem:
  "series_lt (getitem df c) t =
     (if stamps df c then Inr (map (\<lambda>r. cell_lt t (r c)) (rows df)) else Inl TypeError)"
  by (simp add: series_lt_def stamps_def getitem_def o_def)

lemma series_ne_getitem: "series_ne (getitem df c) k = map (\<lambda>r. r c \<noteq> Num k) (rows df)"
  by (simp add: series_ne_def getitem_def o_def)

lemma in_window_cell:
  "in_window self c = (cell_ge (window_start self) c \<and> cell_lt (window_end self) c)"
  by (cases c) (simp_all add: in_window_def)

subsection \<open>Each rule as the messages it contributes\<close>

lemma check_row_count_eq: "check_row_count df row res = res @ row_part df row"
  by (simp add: check_row_count_def row_part_def)

lemma check_id_column_fst: "fst (check_id_column df) = list_ex (has df) id_columns"
  by (auto simp: check_id_column_def Let_def has_def list_ex_iff filter_empty_conv)

lemma check_id_eq: "check_id df res = res @ id_part df"
  using check_id_column_fst [of df]
  by (auto simp: check_id_def id_part_def split: prod.splits)

lemma daily_is_created_eq:
  "daily_is_created self df res =
     (if has df ''IsCreated'' \<and> has df ''DateCreated'' \<and> \<not> stamps df ''DateCreated''
      then Inl TypeError
      else Inr (res @ report (has df ''IsCreated'' \<and> has df ''DateCreated'')
                         daily_created_message (violations (invalid_created self) df)))"
  by (auto simp: daily_is_created_def has_def series_ge_getitem series_ne_getitem mask_and_map
      empty_def select_rows select_columns len_def report_def violations_def
      invalid_created_def [abs_def] Let_def)

lemma daily_is_modified_eq:
  "daily_is_modified self df res =
     (if has df ''IsModified'' \<and> has df ''DateModified'' \<and> \<not> stamps df ''DateModified''
      then Inl TypeError
      else Inr (res @ report (has df ''IsModified'' \<and> has df ''DateModified'')
                         daily_modified_message (violations (invalid_modified self) df)))"
  by (auto simp: daily_is_modified_def has_def series_ge_getitem series_ne_getitem mask_and_map
      empty_def select_rows select_columns len_def report_def violations_def
      invalid_modified_def [abs_def] Let_def)

lemma daily_date_criteria_eq:
  "daily_date_criteria self df res =
     (if has df ''DateCreated'' \<and> has df ''DateModified'' \<and>
         \<not> (stamps df ''DateCreated'' \<and> stamps df ''DateModified'')
      then Inl TypeError
      else Inr (res @ report (has df ''DateCreated'' \<and> has df ''DateModified'')
                         window_message (violations (outside_window self) df)))"
  by (auto simp: daily_date_criteria_def has_def series_ge_getitem series_lt_getitem
      mask_and_map mask_or_map mask_not_map in_window_cell
      empty_def select_rows select_columns len_def report_def violations_def
      outside_window_def [abs_def] Let_def)

lemma full_is_created_eq:
  "full_is_created df res =
     res @ report (has df ''IsCreated'') full_created_message
             (violations (\<lambda>r. r ''IsCreated'' \<noteq> Num 1) df)"
  by (auto simp: full_is_created_def has_def series_ne_getitem empty_def select_rows
      select_columns len_def report_def violations_def Let_def)

lemma full_is_modified_eq:
  "full_is_modified df res =
     res @ report (has df ''IsModified'') full_modified_message
             (violations (\<lambda>r. r ''IsModified'' \<noteq> Num 0) df)"
  by (auto simp: full_is_modified_def has_def series_ne_getitem empty_def select_rows
      select_columns len_def report_def violations_def Let_def)

subsection \<open>The two validators and the dispatch\<close>

lemma validate_full_file_eq:
  "validate_full_file self df row = Inr (full_messages df row = [], full_messages df row)"
  by (simp add: validate_full_file_def full_messages_def check_row_count_eq check_id_eq
      full_is_created_eq full_is_modified_eq Let_def)

lemma validate_daily_file_eq:
  "validate_daily_file self df row =
     (if daily_raises df then Inl TypeError
      else Inr (daily_messages self df row = [], daily_messages self df row))"
  unfolding validate_daily_file_def daily_messages_def daily_raises_def Let_def
    check_row_count_eq check_id_eq daily_is_created_eq daily_is_modified_eq daily_date_criteria_eq
  by (simp del: append_assoc add: append_assoc [symmetric])

lemma dates_parsed_returns: "dates_parsed df \<Longrightarrow> \<not> daily_raises df"
  by (auto simp: dates_parsed_def daily_raises_def)

lemma evaluate_daily_Inr:
  "evaluate self ''daily'' df row = Inr (ok, msgs) \<Longrightarrow>
     msgs = daily_messages self df row \<and> ok = (msgs = [])"
  by (auto simp: evaluate_def validate_daily_file_eq split: if_splits)

lemma evaluate_daily_returns:
  "dates_parsed df \<Longrightarrow>
     evaluate self ''daily'' df row = Inr (daily_messages self df row = [], daily_messages self df row)"
  by (simp add: evaluate_def validate_daily_file_eq dates_parsed_returns)

lemma evaluate_full:
  "mode \<noteq> ''daily'' \<Longrightarrow>
     evaluate self mode df row = Inr (full_messages df row = [], full_messages df row)"
  by (simp add: evaluate_def validate_full_file_eq)

subsection \<open>The message families are disjoint\<close>

lemma row_count_message_neq:
  "row_count_message e g \<noteq> ''No valid ID column found''"
  "row_count_message e g \<noteq> daily_created_message k"
  "row_count_message e g \<noteq> daily_modified_message k"
  "row_count_message e g \<noteq> window_message k"
  "row_count_message e g \<noteq> full_created_message k"
  "row_count_message e g \<noteq> full_modified_message k"
  by (simp_all add: row_count_message_def daily_created_message_def daily_modified_message_def
      window_message_def full_created_message_def full_modified_message_def)

lemma id_message_neq:
  "''No valid ID column found'' \<noteq> daily_created_message k"
  "''No valid ID column found'' \<noteq> daily_modified_message k"
  "''No valid ID column found'' \<noteq> window_message k"
  "''No valid ID column found'' \<noteq> full_created_message k"
  "''No valid ID column found'' \<noteq> full_modified_message k"
  by (simp_all add: daily_created_message_def daily_modified_message_def
      window_message_def full_created_message_def full_modified_message_def)

lemma rev_eqD: "xs = ys \<Longrightarrow> rev xs = rev ys"
  by simp

lemma found_message_neq:
  "daily_created_message j \<noteq> daily_modified_message k"
  "daily_created_message j \<noteq> window_message k"
  "daily_modified_message j \<noteq> window_message k"
  "full_created_message j \<noteq> full_modified_message k"
  by (auto simp: daily_created_message_def daily_modified_message_def
      window_message_def full_created_message_def full_modified_message_def dest!: rev_eqD)

subsection \<open>Reporting once or not at all\<close>

lemma reports_none_append:
  "reports_none msg (a @ b) = (reports_none msg a \<and> reports_none msg b)"
  by (auto simp: reports_none_def)

lemma reports_once_single: "reports_once msg n [msg n]"
  unfolding reports_once_def by (rule exI [of _ "[]"], rule exI [of _ "[]"]) simp

lemma reports_once_append_left:
  assumes "reports_none msg a" and "reports_once msg n b"
  shows "reports_once msg n (a @ b)"
proof -
  from assms(2) obtain pre post
    where b: "b = pre @ [msg n] @ post" and n: "\<forall>k. msg k \<notin> set pre \<and> msg k \<notin> set post"
    unfolding reports_once_def by blast
  have "a @ b = (a @ pre) @ [msg n] @ post" using b by simp
  moreover have "\<forall>k. msg k \<notin> set (a @ pre) \<and> msg k \<notin> set post"
    using assms(1) n by (auto simp: reports_none_def)
  ultimately show ?thesis unfolding reports_once_def by blast
qed

lemma reports_once_append_right:
  assumes "reports_once msg n a" and "reports_none msg b"
  shows "reports_once msg n (a @ b)"
proof -
  from assms(1) obtain pre post
    where a: "a = pre @ [msg n] @ post" and n: "\<forall>k. msg k \<notin> set pre \<and> msg k \<notin> set post"
    unfolding reports_once_def by blast
  have "a @ b = pre @ [msg n] @ (post @ b)" using a by simp
  moreover have "\<forall>k. msg k \<notin> set pre \<and> msg k \<notin> set (post @ b)"
    using assms(2) n by (auto simp: reports_none_def)
  ultimately show ?thesis unfolding reports_once_def by blast
qed

lemma reports_once_mem: "reports_once msg n msgs \<Longrightarrow> msg n \<in> set msgs"
  by (auto simp: reports_once_def)

lemma reports_none_row_part:
  "reports_none daily_created_message (row_part df row)"
  "reports_none daily_modified_message (row_part df row)"
  "reports_none window_message (row_part df row)"
  "reports_none full_created_message (row_part df row)"
  "reports_none full_modified_message (row_part df row)"
  using row_count_message_neq [symmetric] by (simp_all add: reports_none_def row_part_def)

lemma reports_none_id_part:
  "reports_none daily_created_message (id_part df)"
  "reports_none daily_modified_message (id_part df)"
  "reports_none window_message (id_part df)"
  "reports_none full_created_message (id_part df)"
  "reports_none full_modified_message (id_part df)"
  using id_message_neq [symmetric] by (simp_all add: reports_none_def id_part_def)

lemma reports_none_other:
  "reports_none daily_created_message (report a daily_modified_message n)"
  "reports_none daily_created_message (report a window_message n)"
  "reports_none daily_modified_message (report a daily_created_message n)"
  "reports_none daily_modified_message (report a window_message n)"
  "reports_none window_message (report a daily_created_message n)"
  "reports_none window_message (report a daily_modified_message n)"
  "reports_none full_created_message (report a full_modified_message n)"
  "reports_none full_modified_message (report a full_created_message n)"
  using found_message_neq found_message_neq [symmetric]
  by (simp_all add: reports_none_def report_def)

lemma reports_none_report: "\<not> (a \<and> 0 < n) \<Longrightarrow> reports_none msg (report a msg n)"
  by (auto simp: reports_none_def report_def)

lemma reports_once_report: "a \<Longrightarrow> 0 < n \<Longrightarrow> reports_once msg n (report a msg n)"
  by (simp add: report_def reports_once_single)

lemmas reports_none_parts = reports_none_row_part reports_none_id_part reports_none_other


lemma daily_reports_created:
  "has df ''IsCreated'' \<and> has df ''DateCreated'' \<and> 0 < violations (invalid_created self) df \<Longrightarrow>
     reports_once daily_created_message (violations (invalid_created self) df)
       (daily_messages self df row)"
  "\<not> (has df ''IsCreated'' \<and> has df ''DateCreated'' \<and> 0 < violations (invalid_created self) df) \<Longrightarrow>
     reports_none daily_created_message (daily_messages self df row)"
  unfolding daily_messages_def
  by (simp_all add: reports_none_append reports_none_parts reports_none_report
      reports_once_append_left reports_once_append_right reports_once_report)



subsection \<open>The claims on the rule engine\<close>

lemma sample_daily:
  "evaluate init ''daily'' sample_df orders =
     Inr (False, [''Row count mismatch: expected 2, got 3'',
                  ''Found 1 invalid IsCreated values'',
                  ''Found 1 invalid IsModified values'',
                  ''Found 1 records outside time window''])"
  by code_simp


lemma sample_parsed: "dates_parsed sample_df"
  by code_simp







lemma row_count_message_mem:
  "(\<exists>e g. row_count_message e g \<in> set (row_part df row @ id_part df @ rest)) =
     (int (len df) \<noteq> row_count row \<or> (\<exists>e g. row_count_message e g \<in> set rest))"
  using row_count_message_neq(1) by (auto simp: row_part_def id_part_def)

lemma row_count_in_messages:
  "(\<exists>e g. row_count_message e g \<in> set (daily_messages self df row)) = (int (len df) \<noteq> row_count row)"
  "(\<exists>e g. row_count_message e g \<in> set (full_messages df row)) = (int (len df) \<noteq> row_count row)"
  unfolding daily_messages_def full_messages_def row_count_message_mem
  using row_count_message_neq by (auto simp: report_def)

lemma hd_messages:
  "int (len df) \<noteq> row_count row \<Longrightarrow>
     hd (daily_messages self df row) = row_count_message (row_count row) (len df)"
  "int (len df) \<noteq> row_count row \<Longrightarrow>
     hd (full_messages df row) = row_count_message (row_count row) (len df)"
  by (simp_all add: daily_messages_def full_messages_def row_part_def)

lemma evaluate_Inr:
  "evaluate self mode df row = Inr (ok, msgs) \<Longrightarrow>
     msgs = (if mode = ''daily'' then daily_messages self df row else full_messages df row) \<and>
     ok = (msgs = [])"
  by (auto simp: evaluate_def validate_daily_file_eq validate_full_file_eq split: if_splits)

lemma evaluate_returns:
  "mode = ''daily'' \<longrightarrow> dates_parsed df \<Longrightarrow> \<exists>out. evaluate self mode df row = Inr out"
  by (cases "mode = ''daily''") (simp_all add: evaluate_daily_returns evaluate_full)

text \<open>
  C5. In both modes the outcome has a row-count message if and only if the number of raw
  records differs from the \<^verbatim>\<open>row_count\<close> of the manifest row; it is then the first
  message and states the expected count and the actual one. On well-typed input the
  evaluation returns.
\<close>

theorem row_count_defect_iff:
  "((mode = ''daily'' \<longrightarrow> dates_parsed raw_df) \<longrightarrow>
      (\<exists>out. evaluate self mode raw_df row = Inr out)) \<and>
   (\<forall>ok msgs. evaluate self mode raw_df row = Inr (ok, msgs) \<longrightarrow>
      ((\<exists>e g. row_count_message e g \<in> set msgs) \<longleftrightarrow> int (len raw_df) \<noteq> row_count row) \<and>
      (int (len raw_df) \<noteq> row_count row \<longrightarrow>
         hd msgs = ''Row count mismatch: expected '' @ str (row_count row)
                     @ '', got '' @ str (int (len raw_df))))"
proof (intro conjI allI impI)
  assume "mode = ''daily'' \<longrightarrow> dates_parsed raw_df"
  then show "\<exists>out. evaluate self mode raw_df row = Inr out"
    by (rule evaluate_returns)
next
  fix ok msgs
  assume "evaluate self mode raw_df row = Inr (ok, msgs)"
  then have m: "msgs = (if mode = ''daily'' then daily_messages self raw_df row
                        else full_messages raw_df row)"
    by (simp add: evaluate_Inr)
  show "(\<exists>e g. row_count_message e g \<in> set msgs) \<longleftrightarrow> int (len raw_df) \<noteq> row_count row"
    by (simp add: m row_count_in_messages)
  assume "int (len raw_df) \<noteq> row_count row"
  then show "hd msgs = ''Row count mismatch: expected '' @ str (row_count row)
                     @ '', got '' @ str (int (len raw_df))"
    by (simp add: m hd_messages row_count_message_def)
qed

theorem row_count_defect_iff_witness:
  "dates_parsed sample_df \<and>
   evaluate init ''daily'' sample_df orders =
     Inr (False, [''Row count mismatch: expected 2, got 3'',
                  ''Found 1 invalid IsCreated values'',
                  ''Found 1 invalid IsModified values'',
                  ''Found 1 records outside time window'']) \<and>
   int (len sample_df) \<noteq> row_count orders \<and>
   (\<exists>e g. row_count_message e g \<in> set
     [''Row count mismatch: expected 2, got 3'',
      ''Found 1 invalid IsCreated values'',
      ''Found 1 invalid IsModified values'',
      ''Found 1 records outside time window''])"
proof -
  have n: "int (len sample_df) \<noteq> row_count orders"
    by code_simp
  note t = row_count_defect_iff [of "''daily''" sample_df init orders]
  from t [THEN conjunct2, rule_format, OF sample_daily, THEN conjunct1] n
  have "\<exists>e g. row_count_message e g \<in> set
     [''Row count mismatch: expected 2, got 3'',
      ''Found 1 invalid IsCreated values'',
      ''Found 1 invalid IsModified values'',
      ''Found 1 records outside time window'']"
    by (rule iffD2)
  with sample_parsed sample_daily n show ?thesis by blast
qed

lemma invalid_created_cases:
  "r ''DateCreated'' = Stamp (window_start self) \<and> r ''IsCreated'' = Num 0 \<Longrightarrow> invalid_created self r"
  "r ''IsCreated'' = Num 1 \<Longrightarrow> \<not> invalid_created self r"
  by (simp_all add: invalid_created_def)

lemma violations_pos: "r \<in> set (rows df) \<Longrightarrow> P r \<Longrightarrow> 0 < violations P df"
  by (auto simp: violations_def filter_empty_conv)

lemma violations_zero: "\<forall>r\<in>set (rows df). \<not> P r \<Longrightarrow> violations P df = 0"
  by (simp add: violations_def filter_empty_conv)

lemma daily_created_message_1: "daily_created_message 1 = ''Found 1 invalid IsCreated values''"
  by (simp add: daily_created_message_def str_def str_nat.simps)

text \<open>
  C6. In daily mode with the columns \<^verbatim>\<open>IsCreated\<close> and \<^verbatim>\<open>DateCreated\<close> present, the
  outcome has one message carrying the number of records with
  \<open>DateCreated \<ge> window.start\<close> and \<^verbatim>\<open>IsCreated != 1\<close>, when there is such a record. A
  record created exactly at the start of the window with \<^verbatim>\<open>IsCreated = 0\<close> is among them,
  so the count is at least 1; a record with \<^verbatim>\<open>IsCreated = 1\<close> is not, and when every
  record has \<^verbatim>\<open>IsCreated = 1\<close> there is no such message. With exactly one such record the
  message is \<^verbatim>\<open>Found 1 invalid IsCreated values\<close>.
\<close>

theorem daily_is_created_rule:
  "(''IsCreated'' \<in> set (columns raw_df) \<and> ''DateCreated'' \<in> set (columns raw_df) \<longrightarrow>
     (dates_parsed raw_df \<longrightarrow> (\<exists>out. evaluate self ''daily'' raw_df row = Inr out)) \<and>
     (\<forall>ok msgs. evaluate self ''daily'' raw_df row = Inr (ok, msgs) \<longrightarrow>
        (0 < violations (invalid_created self) raw_df \<longrightarrow>
           reports_once daily_created_message (violations (invalid_created self) raw_df) msgs) \<and>
        (violations (invalid_created self) raw_df = 0 \<longrightarrow>
           reports_none daily_created_message msgs) \<and>
        ((\<exists>r\<in>set (rows raw_df).
             r ''DateCreated'' = Stamp (window_start self) \<and> r ''IsCreated'' = Num 0) \<longrightarrow>
           1 \<le> violations (invalid_created self) raw_df \<and>
           reports_once daily_created_message (violations (invalid_created self) raw_df) msgs) \<and>
        ((\<forall>r\<in>set (rows raw_df). r ''IsCreated'' = Num 1) \<longrightarrow>
           reports_none daily_created_message msgs) \<and>
        (violations (invalid_created self) raw_df = 1 \<longrightarrow>
           ''Found 1 invalid IsCreated values'' \<in> set msgs))) \<and>
   (\<forall>r. r ''DateCreated'' = Stamp (window_start self) \<and> r ''IsCreated'' = Num 0 \<longrightarrow>
        invalid_created self r) \<and>
   (\<forall>r. r ''IsCreated'' = Num 1 \<longrightarrow> \<not> invalid_created self r)"
proof (intro conjI allI impI)
  assume "dates_parsed raw_df"
  then show "\<exists>out. evaluate self ''daily'' raw_df row = Inr out"
    by (simp add: evaluate_daily_returns)
next
  fix r
  assume "r ''DateCreated'' = Stamp (window_start self) \<and> r ''IsCreated'' = Num 0"
  then show "invalid_created self r" by (rule invalid_created_cases)
next
  fix r
  assume "r ''IsCreated'' = Num 1"
  then show "\<not> invalid_created self r" by (rule invalid_created_cases)
next
  fix ok msgs
  assume cols: "''IsCreated'' \<in> set (columns raw_df) \<and> ''DateCreated'' \<in> set (columns raw_df)"
    and "evaluate self ''daily'' raw_df row = Inr (ok, msgs)"
  then have m: "msgs = daily_messages self raw_df row"
    by (simp add: evaluate_daily_Inr)
  from cols have h: "has raw_df ''IsCreated'' \<and> has raw_df ''DateCreated''"
    by (simp add: has_def)
  have once: "reports_once daily_created_message (violations (invalid_created self) raw_df) msgs"
    if "0 < violations (invalid_created self) raw_df"
    using that h daily_reports_created(1) [of raw_df self row] by (simp add: m)
  have none: "reports_none daily_created_message msgs"
    if "violations (invalid_created self) raw_df = 0"
    using that daily_reports_created(2) [of raw_df self row] by (simp add: m)
  {
    assume "0 < violations (invalid_created self) raw_df"
    then show "reports_once daily_created_message (violations (invalid_created self) raw_df) msgs"
      by (rule once)
  next
    assume "violations (invalid_created self) raw_df = 0"
    then show "reports_none daily_created_message msgs" by (rule none)
  next
    assume "\<exists>r\<in>set (rows raw_df).
             r ''DateCreated'' = Stamp (window_start self) \<and> r ''IsCreated'' = Num 0"
    then have p: "0 < violations (invalid_created self) raw_df"
      by (auto intro: violations_pos invalid_created_cases)
    then show "1 \<le> violations (invalid_created self) raw_df" by simp
    from p show "reports_once daily_created_message (violations (invalid_created self) raw_df) msgs"
      by (rule once)
  next
    assume "\<forall>r\<in>set (rows raw_df). r ''IsCreated'' = Num 1"
    then have "violations (invalid_created self) raw_df = 0"
      by (simp add: violations_zero invalid_created_cases)
    then show "reports_none daily_created_message msgs" by (rule none)
  next
    assume one: "violations (invalid_created self) raw_df = 1"
    then have "reports_once daily_created_message 1 msgs"
      using once by simp
    then have "daily_created_message 1 \<in> set msgs"
      by (rule reports_once_mem)
    then show "''Found 1 invalid IsCreated values'' \<in> set msgs"
      by (simp only: daily_created_message_1)
  }
qed

theorem daily_is_created_rule_witness:
  "''IsCreated'' \<in> set (columns sample_df) \<and> ''DateCreated'' \<in> set (columns sample_df) \<and>
   dates_parsed sample_df \<and>
   evaluate init ''daily'' sample_df orders =
     Inr (False, [''Row count mismatch: expected 2, got 3'',
                  ''Found 1 invalid IsCreated values'',
                  ''Found 1 invalid IsModified values'',
                  ''Found 1 records outside time window'']) \<and>
   (\<exists>r\<in>set (rows sample_df).
       r ''DateCreated'' = Stamp (window_start init) \<and> r ''IsCreated'' = Num 0) \<and>
   violations (invalid_created init) sample_df = 1 \<and>
   reports_once daily_created_message 1
     [''Row count mismatch: expected 2, got 3'',
      ''Found 1 invalid IsCreated values'',
      ''Found 1 invalid IsModified values'',
      ''Found 1 records outside time window'']"
proof -
  have c: "''IsCreated'' \<in> set (columns sample_df) \<and> ''DateCreated'' \<in> set (columns sample_df)"
    by code_simp
  have b: "\<exists>r\<in>set (rows sample_df).
       r ''DateCreated'' = Stamp (window_start init) \<and> r ''IsCreated'' = Num 0"
    by code_simp
  have n: "violations (invalid_created init) sample_df = 1"
    by code_simp
  note t = daily_is_created_rule [of sample_df init orders]
  from t [THEN conjunct1, rule_format, OF c, THEN conjunct2, rule_format, OF sample_daily]
  have "(\<exists>r\<in>set (rows sample_df).
             r ''DateCreated'' = Stamp (window_start init) \<and> r ''IsCreated'' = Num 0) \<longrightarrow>
           1 \<le> violations (invalid_created init) sample_df \<and>
           reports_once daily_created_message (violations (invalid_created init) sample_df)
            [''Row count mismatch: expected 2, got 3'',
      ''Found 1 invalid IsCreated values'',
      ''Found 1 invalid IsModified values'',
      ''Found 1 records outside time window'']"
    by blast
  with b n have "reports_once daily_created_message 1
     [''Row count mismatch: expected 2, got 3'',
      ''Found 1 invalid IsCreated values'',
      ''Found 1 invalid IsModified values'',
      ''Found 1 records outside time window'']"
    by simp
  with c sample_parsed sample_daily b n show ?thesis by blast
qed

lemma id_message_in_messages:
  "(''No valid ID column found'' \<in> set (daily_messages self df row)) = (\<not> list_ex (has df) id_columns)"
  "(''No valid ID column found'' \<in> set (full_messages df row)) = (\<not> list_ex (has df) id_columns)"
  by (auto simp: daily_messages_def full_messages_def row_part_def id_part_def report_def
      row_count_message_neq row_count_message_neq [symmetric] id_message_neq
      id_message_neq [symmetric])

lemma id_sample_full:
  "evaluate init ''full'' id_sample orders = Inr (False, [''Row count mismatch: expected 2, got 1''])"
  by code_simp

text \<open>
  C7. \<^verbatim>\<open>check_id_column\<close> selects the first of \<^verbatim>\<open>ID\<close>, \<^verbatim>\<open>Id\<close>, \<^verbatim>\<open>DataID\<close>,
  \<^verbatim>\<open>ProductOptionDataID\<close> that is among the columns (with the columns \<^verbatim>\<open>Id\<close> and
  \<^verbatim>\<open>DataID\<close> it selects \<^verbatim>\<open>Id\<close>), and in both modes the outcome has the message
  \<^verbatim>\<open>No valid ID column found\<close> if and only if none of the four is among the columns.
\<close>

theorem id_column_detection:
  "check_id_column df =
     (''ID'' \<in> set (columns df) \<or> ''Id'' \<in> set (columns df) \<or> ''DataID'' \<in> set (columns df) \<or>
        ''ProductOptionDataID'' \<in> set (columns df),
      if ''ID'' \<in> set (columns df) then Some ''ID''
      else if ''Id'' \<in> set (columns df) then Some ''Id''
      else if ''DataID'' \<in> set (columns df) then Some ''DataID''
      else if ''ProductOptionDataID'' \<in> set (columns df) then Some ''ProductOptionDataID''
      else None) \<and>
   (set (columns df) = {''Id'', ''DataID''} \<longrightarrow> check_id_column df = (True, Some ''Id'')) \<and>
   ((mode = ''daily'' \<longrightarrow> dates_parsed df) \<longrightarrow> (\<exists>out. evaluate self mode df row = Inr out)) \<and>
   (\<forall>ok msgs. evaluate self mode df row = Inr (ok, msgs) \<longrightarrow>
      (''No valid ID column found'' \<in> set msgs \<longleftrightarrow>
         ''ID'' \<notin> set (columns df) \<and> ''Id'' \<notin> set (columns df) \<and> ''DataID'' \<notin> set (columns df) \<and>
         ''ProductOptionDataID'' \<notin> set (columns df)))"
proof (intro conjI allI impI)
  show c: "check_id_column df =
     (''ID'' \<in> set (columns df) \<or> ''Id'' \<in> set (columns df) \<or> ''DataID'' \<in> set (columns df) \<or>
        ''ProductOptionDataID'' \<in> set (columns df),
      if ''ID'' \<in> set (columns df) then Some ''ID''
      else if ''Id'' \<in> set (columns df) then Some ''Id''
      else if ''DataID'' \<in> set (columns df) then Some ''DataID''
      else if ''ProductOptionDataID'' \<in> set (columns df) then Some ''ProductOptionDataID''
      else None)"
    by (simp add: check_id_column_def id_columns_def)
  assume "set (columns df) = {''Id'', ''DataID''}"
  then show "check_id_column df = (True, Some ''Id'')"
    by (simp add: c)
next
  assume "mode = ''daily'' \<longrightarrow> dates_parsed df"
  then show "\<exists>out. evaluate self mode df row = Inr out"
    by (rule evaluate_returns)
next
  fix ok msgs
  assume "evaluate self mode df row = Inr (ok, msgs)"
  then have m: "msgs = (if mode = ''daily'' then daily_messages self df row
                        else full_messages df row)"
    by (simp add: evaluate_Inr)
  show "''No valid ID column found'' \<in> set msgs \<longleftrightarrow>
         ''ID'' \<notin> set (columns df) \<and> ''Id'' \<notin> set (columns df) \<and> ''DataID'' \<notin> set (columns df) \<and>
         ''ProductOptionDataID'' \<notin> set (columns df)"
    by (simp add: m id_message_in_messages id_columns_def has_def)
qed

theorem id_column_detection_witness:
  "set (columns id_sample) = {''Id'', ''DataID''} \<and>
   check_id_column id_sample = (True, Some ''Id'') \<and>
   evaluate init ''full'' id_sample orders =
     Inr (False, [''Row count mismatch: expected 2, got 1'']) \<and>
   ''No valid ID column found'' \<notin> set [''Row count mismatch: expected 2, got 1'']"
proof -
  have s: "set (columns id_sample) = {''Id'', ''DataID''}"
    by (auto simp: id_sample_def)
  note t = id_column_detection [of id_sample "''full''" init orders]
  from t s have c: "check_id_column id_sample = (True, Some ''Id'')"
    by blast
  from t have "\<forall>ok msgs. evaluate init ''full'' id_sample orders = Inr (ok, msgs) \<longrightarrow>
      (''No valid ID column found'' \<in> set msgs \<longleftrightarrow>
         ''ID'' \<notin> set (columns id_sample) \<and> ''Id'' \<notin> set (columns id_sample) \<and>
         ''DataID'' \<notin> set (columns id_sample) \<and>
         ''ProductOptionDataID'' \<notin> set (columns id_sample))"
    by blast
  from this [rule_format, OF id_sample_full] s
  have "''No valid ID column found'' \<notin> set [''Row count mismatch: expected 2, got 1'']"
    by blast
  with s c id_sample_full show ?thesis by blast
qed

lemma subseq_report: "subseq (report a msg n) [msg n]"
  by (simp add: report_def)

lemma subseq_row_part: "subseq (row_part df row) [row_count_message (row_count row) (len df)]"
  by (simp add: row_part_def)

lemma subseq_id_part: "subseq (id_part df) [''No valid ID column found'']"
  by (simp add: id_part_def)

lemma subseq_rule_order:
  "subseq (daily_messages self df row) (rule_order self ''daily'' df row)"
  "mode \<noteq> ''daily'' \<Longrightarrow> subseq (full_messages df row) (rule_order self mode df row)"
proof -
  have "subseq (daily_messages self df row)
     ([row_count_message (row_count row) (len df)] @ [''No valid ID column found'']
      @ [daily_created_message (violations (invalid_created self) df)]
      @ [daily_modified_message (violations (invalid_modified self) df)]
      @ [window_message (violations (outside_window self) df)])"
    unfolding daily_messages_def
    by (intro list_emb_append_mono subseq_row_part subseq_id_part subseq_report)
  then show "subseq (daily_messages self df row) (rule_order self ''daily'' df row)"
    by (simp add: rule_order_def)
  have "subseq (full_messages df row)
     ([row_count_message (row_count row) (len df)] @ [''No valid ID column found'']
      @ [full_created_message (violations (\<lambda>r. r ''IsCreated'' \<noteq> Num 1) df)]
      @ [full_modified_message (violations (\<lambda>r. r ''IsModified'' \<noteq> Num 0) df)])"
    unfolding full_messages_def
    by (intro list_emb_append_mono subseq_row_part subseq_id_part subseq_report)
  then show "subseq (full_messages df row) (rule_order self mode df row)" if "mode \<noteq> ''daily''"
    using that by (simp add: rule_order_def)
qed

lemma messages_matching_count:
  "daily_messages self df row = row_part df row @ daily_messages self df (row \<lparr> row_count := int (len df) \<rparr>)"
  "full_messages df row = row_part df row @ full_messages df (row \<lparr> row_count := int (len df) \<rparr>)"
  by (simp_all add: daily_messages_def full_messages_def row_part_def)

text \<open>
  C8. In both modes the outcome is valid if and only if it has no message. Every rule of
  the mode runs and every defect is collected: the messages are, in this order, the
  row-count message when the counts differ, the identifier message when no identifier
  column is present, and then the message of each further rule of the mode that applies
  and is violated, with its count (in daily mode \<^verbatim>\<open>IsCreated\<close>, \<^verbatim>\<open>IsModified\<close> and
  the time window; in full mode \<^verbatim>\<open>IsCreated\<close> and \<^verbatim>\<open>IsModified\<close>); nothing else. A
  row-count mismatch does not cut the evaluation short: the messages are the row-count
  message followed by exactly the messages the same table gets under a manifest row with
  the matching count.
\<close>

theorem outcome_collects_all_defects:
  "((mode = ''daily'' \<longrightarrow> dates_parsed raw_df) \<longrightarrow>
      (\<exists>out. evaluate self mode raw_df row = Inr out)) \<and>
   (\<forall>ok msgs. evaluate self mode raw_df row = Inr (ok, msgs) \<longrightarrow>
      (ok \<longleftrightarrow> msgs = []) \<and>
      msgs =
        (if int (len raw_df) \<noteq> row_count row
         then [row_count_message (row_count row) (len raw_df)] else []) @
        (if \<forall>c\<in>set id_columns. c \<notin> set (columns raw_df)
         then [''No valid ID column found''] else []) @
        (if mode = ''daily'' then
           (if ''IsCreated'' \<in> set (columns raw_df) \<and> ''DateCreated'' \<in> set (columns raw_df) \<and>
               0 < violations (invalid_created self) raw_df
            then [daily_created_message (violations (invalid_created self) raw_df)] else []) @
           (if ''IsModified'' \<in> set (columns raw_df) \<and> ''DateModified'' \<in> set (columns raw_df) \<and>
               0 < violations (invalid_modified self) raw_df
            then [daily_modified_message (violations (invalid_modified self) raw_df)] else []) @
           (if ''DateCreated'' \<in> set (columns raw_df) \<and> ''DateModified'' \<in> set (columns raw_df) \<and>
               0 < violations (outside_window self) raw_df
            then [window_message (violations (outside_window self) raw_df)] else [])
         else
           (if ''IsCreated'' \<in> set (columns raw_df) \<and>
               0 < violations (\<lambda>r. r ''IsCreated'' \<noteq> Num 1) raw_df
            then [full_created_message (violations (\<lambda>r. r ''IsCreated'' \<noteq> Num 1) raw_df)]
            else []) @
           (if ''IsModified'' \<in> set (columns raw_df) \<and>
               0 < violations (\<lambda>r. r ''IsModified'' \<noteq> Num 0) raw_df
            then [full_modified_message (violations (\<lambda>r. r ''IsModified'' \<noteq> Num 0) raw_df)]
            else [])) \<and>
      (\<exists>ok' rest.
          evaluate self mode raw_df (row \<lparr> row_count := int (len raw_df) \<rparr>) = Inr (ok', rest) \<and>
          msgs = (if int (len raw_df) \<noteq> row_count row
                  then [row_count_message (row_count row) (len raw_df)] else []) @ rest) \<and>
      subseq msgs (rule_order self mode raw_df row))"
proof (intro conjI allI impI)
  assume "mode = ''daily'' \<longrightarrow> dates_parsed raw_df"
  then show "\<exists>out. evaluate self mode raw_df row = Inr out"
    by (rule evaluate_returns)
next
  fix ok msgs
  assume e: "evaluate self mode raw_df row = Inr (ok, msgs)"
  then have m: "msgs = (if mode = ''daily'' then daily_messages self raw_df row
                        else full_messages raw_df row)"
    and o: "ok = (msgs = [])"
    by (simp_all add: evaluate_Inr)
  from o show "ok \<longleftrightarrow> msgs = []" by simp
  show "subseq msgs (rule_order self mode raw_df row)"
    by (simp add: m subseq_rule_order)
  show "msgs =
        (if int (len raw_df) \<noteq> row_count row
         then [row_count_message (row_count row) (len raw_df)] else []) @
        (if \<forall>c\<in>set id_columns. c \<notin> set (columns raw_df)
         then [''No valid ID column found''] else []) @
        (if mode = ''daily'' then
           (if ''IsCreated'' \<in> set (columns raw_df) \<and> ''DateCreated'' \<in> set (columns raw_df) \<and>
               0 < violations (invalid_created self) raw_df
            then [daily_created_message (violations (invalid_created self) raw_df)] else []) @
           (if ''IsModified'' \<in> set (columns raw_df) \<and> ''DateModified'' \<in> set (columns raw_df) \<and>
               0 < violations (invalid_modified self) raw_df
            then [daily_modified_message (violations (invalid_modified self) raw_df)] else []) @
           (if ''DateCreated'' \<in> set (columns raw_df) \<and> ''DateModified'' \<in> set (columns raw_df) \<and>
               0 < violations (outside_window self) raw_df
            then [window_message (violations (outside_window self) raw_df)] else [])
         else
           (if ''IsCreated'' \<in> set (columns raw_df) \<and>
               0 < violations (\<lambda>r. r ''IsCreated'' \<noteq> Num 1) raw_df
            then [full_created_message (violations (\<lambda>r. r ''IsCreated'' \<noteq> Num 1) raw_df)]
            else []) @
           (if ''IsModified'' \<in> set (columns raw_df) \<and>
               0 < violations (\<lambda>r. r ''IsModified'' \<noteq> Num 0) raw_df
            then [full_modified_message (violations (\<lambda>r. r ''IsModified'' \<noteq> Num 0) raw_df)]
            else []))"
    unfolding m daily_messages_def full_messages_def row_part_def id_part_def report_def has_def
      list_ex_iff
    by (cases "mode = ''daily''") (simp_all add: has_def [abs_def])
  let ?row = "row \<lparr> row_count := int (len raw_df) \<rparr>"
  let ?rest = "if mode = ''daily'' then daily_messages self raw_df ?row else full_messages raw_df ?row"
  from e have "evaluate self mode raw_df ?row = Inr (?rest = [], ?rest)"
    by (auto simp: evaluate_def validate_daily_file_eq validate_full_file_eq split: if_splits)
  moreover have "msgs = (if int (len raw_df) \<noteq> row_count row
                  then [row_count_message (row_count row) (len raw_df)] else []) @ ?rest"
    using messages_matching_count(1) [of self raw_df row]
      messages_matching_count(2) [of raw_df row]
    by (simp add: m row_part_def)
  ultimately show "\<exists>ok' rest.
          evaluate self mode raw_df ?row = Inr (ok', rest) \<and>
          msgs = (if int (len raw_df) \<noteq> row_count row
                  then [row_count_message (row_count row) (len raw_df)] else []) @ rest"
    by blast
qed

theorem outcome_collects_all_defects_witness:
  "dates_parsed sample_df \<and>
   evaluate init ''daily'' sample_df orders =
     Inr (False, [''Row count mismatch: expected 2, got 3'',
                  ''Found 1 invalid IsCreated values'',
                  ''Found 1 invalid IsModified values'',
                  ''Found 1 records outside time window'']) \<and>
   int (len sample_df) \<noteq> row_count orders \<and>
   (\<exists>ok'. evaluate init ''daily'' sample_df (orders \<lparr> row_count := int (len sample_df) \<rparr>) =
      Inr (ok', [''Found 1 invalid IsCreated values'',
                 ''Found 1 invalid IsModified values'',
                 ''Found 1 records outside time window'']))"
proof -
  have n: "int (len sample_df) \<noteq> row_count orders"
    by code_simp
  have r: "row_count_message (row_count orders) (len sample_df) = ''Row count mismatch: expected 2, got 3''"
    by code_simp
  note t = outcome_collects_all_defects [of "''daily''" sample_df init orders]
  from t [THEN conjunct2, rule_format, OF sample_daily, THEN conjunct2, THEN conjunct2,
      THEN conjunct1]
  obtain ok' rest
    where e: "evaluate init ''daily'' sample_df (orders \<lparr> row_count := int (len sample_df) \<rparr>) =
                Inr (ok', rest)"
      and m: "[''Row count mismatch: expected 2, got 3'',
                  ''Found 1 invalid IsCreated values'',
                  ''Found 1 invalid IsModified values'',
                  ''Found 1 records outside time window''] =
              (if int (len sample_df) \<noteq> row_count orders
                  then [row_count_message (row_count orders) (len sample_df)] else []) @ rest"
    by blast
  from m n r have "rest = [''Found 1 invalid IsCreated values'',
                 ''Found 1 invalid IsModified values'',
                 ''Found 1 records outside time window'']"
    by simp
  with e sample_parsed sample_daily n show ?thesis by blast
qed

end
